theory Spec2Isabelle
  imports Main "HOL-Library.Sublist"
begin

section \<open>bin/sam-translate.py: the command-line shell around the SAM translator\<close>

text \<open>
  The script parses its options, optionally shells out to
  \<^verbatim>\<open>aws cloudformation package\<close>, transforms a template by calling the translator
  library, writes the result as JSON and optionally shells out to
  \<^verbatim>\<open>aws cloudformation deploy\<close>. Everything it does is an effect, so the embedding
  threads an explicit world (the files and the trace of effects performed) through
  every function and returns Python exceptions as values.
\<close>

subsection \<open>Data\<close>

text \<open>
  A \<^verbatim>\<open>pathlib.Path\<close> is kept as the string that \<^verbatim>\<open>str\<close> gives for it; the
  normalisation that the constructor applies to its argument is not modelled.
\<close>

datatype path = Path string

fun str :: "path \<Rightarrow> string" where
  "str (Path s) = s"

text \<open>The namespace that \<^verbatim>\<open>parser.parse_args()\<close> returns (lines 30 to 61).\<close>

record cli_options =
  command :: "string option"
  template_file :: path
  output_template :: path
  s3_bucket :: "string option"
  capabilities :: "string option"
  stack_name :: "string option"
  verbose :: bool

text \<open>
  The document that \<^verbatim>\<open>transform\<close> returns and \<^verbatim>\<open>json.dumps\<close> serialises: a tree
  of dictionaries (insertion ordered, string keys), lists and scalars. Floating-point
  scalars are left out.
\<close>

datatype json =
    JNull
  | JBool bool
  | JInt int
  | JStr string
  | JList "json list"
  | JDict "(string \<times> json) list"

text \<open>
  Modelled from the spec: \<^verbatim>\<open>InvalidDocumentException\<close> is defined in
  \<^verbatim>\<open>samtranslator.model.exceptions\<close>, which is not part of the sources at hand. The
  spec describes it as a structured failure carrying a top-level message and an
  ordered sequence of cause messages; the script reads \<^verbatim>\<open>e.message\<close>,
  \<^verbatim>\<open>e.causes\<close> and \<^verbatim>\<open>cause.message\<close>.
\<close>

record validation_error =
  message :: string
  causes :: "string list"

text \<open>The exceptions that can leave a function of the script.\<close>

datatype exn =
    SystemExit int
  | CalledProcessError int
  | FileNotFoundError
  | OSError
  | TypeError
  | YAMLError string
  | InvalidDocumentException validation_error
  | OtherError string

text \<open>
  An element of an argument list handed to \<^verbatim>\<open>subprocess.check_call\<close>: the script
  mixes string literals, \<^verbatim>\<open>Path\<close> objects and option values that are
  \<^verbatim>\<open>None\<close> when the option was not given.
\<close>

datatype arg = Str string | PathArg path | ArgNone

fun opt_arg :: "string option \<Rightarrow> arg" where
  "opt_arg None = ArgNone"
| "opt_arg (Some s) = Str s"

fun fspath :: "arg \<Rightarrow> string option" where
  "fspath (Str s) = Some s"
| "fspath (PathArg p) = Some (str p)"
| "fspath ArgNone = None"

datatype debug_msg =
    Executing_command "arg list"
  | Command_successful
  | Exception_msg int

text \<open>The effects of the script, in the order in which they happen.\<close>

datatype event =
    Open_file path
  | CheckCall "arg list"
  | WriteText path string
  | Print "string list"
  | LogError string
  | LogErrorGenerator "string list"
  | LogDebug debug_msg

type_synonym fs = "path \<rightharpoonup> string"

record world =
  files :: fs
  trace :: "event list"

text \<open>
  The collaborators outside the script. \<^verbatim>\<open>run_process\<close> is the child process
  started by \<^verbatim>\<open>subprocess.check_call\<close>: \<open>None\<close> when the executable cannot be
  launched, otherwise the return code and the files as the child leaves them.
  \<^verbatim>\<open>yaml_parse\<close> and \<^verbatim>\<open>transform\<close> are the translator library;
  \<^verbatim>\<open>writable\<close> says whether a path can be opened for writing.
\<close>

record env =
  platform_system :: string
  run_process :: "string list \<Rightarrow> fs \<Rightarrow> (int \<times> fs) option"
  yaml_parse :: "string \<Rightarrow> exn + json"
  transform :: "json \<Rightarrow> (string \<times> json) list \<Rightarrow> exn + json"
  writable :: "path \<Rightarrow> bool"

definition emit :: "event \<Rightarrow> world \<Rightarrow> world" where
  "emit e w = w\<lparr>trace := trace w @ [e]\<rparr>"

subsection \<open>Strings: \<^verbatim>\<open>str.lower\<close> and \<^verbatim>\<open>json.dumps\<close>\<close>

definition lower_char :: "char \<Rightarrow> char" where
  "lower_char c =
     (let n = (of_char c :: nat)
      in if 65 \<le> n \<and> n \<le> 90 then char_of (n + 32) else c)"

definition lower :: "string \<Rightarrow> string" where
  "lower s = map lower_char s"

definition digit_char :: "nat \<Rightarrow> char" where
  "digit_char n = char_of (48 + n mod 10)"

fun show_nat :: "nat \<Rightarrow> string" where
  "show_nat n = (if n < 10 then [digit_char n] else show_nat (n div 10) @ [digit_char n])"

declare show_nat.simps [simp del]

definition show_int :: "int \<Rightarrow> string" where
  "show_int i = (if i < 0 then CHR ''-'' # show_nat (nat (- i)) else show_nat (nat i))"

definition hex_digit :: "nat \<Rightarrow> char" where
  "hex_digit n = (if n mod 16 < 10 then char_of (48 + n mod 16) else char_of (87 + n mod 16))"

text \<open>
  \<^verbatim>\<open>json.dumps\<close> keeps \<^verbatim>\<open>ensure_ascii\<close>: the printable ASCII characters other
  than the backslash and the double quote stand for themselves, seven characters have
  a short escape, every other one is written \<^verbatim>\<open>\u00XX\<close>.
\<close>

definition escape_char :: "char \<Rightarrow> string" where
  "escape_char c =
     (let n = (of_char c :: nat)
      in if n = 0x5C then [CHR 0x5C, CHR 0x5C]
         else if n = 0x22 then [CHR 0x5C, CHR 0x22]
         else if n = 0x08 then [CHR 0x5C, CHR ''b'']
         else if n = 0x0C then [CHR 0x5C, CHR ''f'']
         else if n = 0x0A then [CHR 0x5C, CHR ''n'']
         else if n = 0x0D then [CHR 0x5C, CHR ''r'']
         else if n = 0x09 then [CHR 0x5C, CHR ''t'']
         else if 0x20 \<le> n \<and> n \<le> 0x7E then [c]
         else [CHR 0x5C, CHR ''u'', CHR ''0'', CHR ''0'', hex_digit (n div 16), hex_digit n])"

definition encode_string :: "string \<Rightarrow> string" where
  "encode_string s = [CHR 0x22] @ concat (map escape_char s) @ [CHR 0x22]"

fun join :: "string \<Rightarrow> string list \<Rightarrow> string" where
  "join sep [] = []"
| "join sep [x] = x"
| "join sep (x # y # ys) = x @ sep @ join sep (y # ys)"

definition newline_indent :: "nat \<Rightarrow> nat \<Rightarrow> string" where
  "newline_indent indent level = CHR 0x0A # replicate (indent * level) CHR '' ''"

text \<open>
  The encoder of \<^verbatim>\<open>json.dumps(obj, indent=indent)\<close> at nesting depth \<open>level\<close>: an
  empty container is written closed; otherwise every item starts on a line of its own,
  \<open>indent * (level + 1)\<close> spaces in, items are separated by a comma, a key from its
  value by a colon and a space, and the closing bracket is on a line of its own.
\<close>

fun iterencode :: "nat \<Rightarrow> nat \<Rightarrow> json \<Rightarrow> string" where
  "iterencode indent level JNull = ''null''"
| "iterencode indent level (JBool b) = (if b then ''true'' else ''false'')"
| "iterencode indent level (JInt i) = show_int i"
| "iterencode indent level (JStr s) = encode_string s"
| "iterencode indent level (JList xs) =
     (if xs = [] then ''[]''
      else ''['' @ newline_indent indent (Suc level)
           @ join ('','' @ newline_indent indent (Suc level))
               (map (iterencode indent (Suc level)) xs)
           @ newline_indent indent level @ '']'')"
| "iterencode indent level (JDict kvs) =
     (if kvs = [] then ''{}''
      else ''{'' @ newline_indent indent (Suc level)
           @ join ('','' @ newline_indent indent (Suc level))
               (map (\<lambda>kv. encode_string (fst kv) @ '': '' @ iterencode indent (Suc level) (snd kv)) kvs)
           @ newline_indent indent level @ ''}'')"

definition json_dumps :: "nat \<Rightarrow> json \<Rightarrow> string" where
  "json_dumps indent obj = iterencode indent 0 obj"

subsection \<open>The option parser (lines 30 to 61)\<close>

text \<open>
  The argument vector is taken as \<^verbatim>\<open>argparse\<close> classifies it: a positional string,
  one of the options with its value, the flag \<^verbatim>\<open>--verbose\<close>, or \<^verbatim>\<open>-h/--help\<close>,
  which \<^verbatim>\<open>argparse\<close> adds by itself. How \<^verbatim>\<open>argparse\<close> recognises an option in
  the raw strings (abbreviations, \<^verbatim>\<open>--name=value\<close>) belongs to the library and is
  not modelled.
\<close>

datatype cli_arg =
    Positional string
  | Opt_template_file string
  | Opt_output_template string
  | Opt_s3_bucket string
  | Opt_capabilities string
  | Opt_stack_name string
  | Opt_verbose
  | Opt_help

text \<open>The defaults of the \<^verbatim>\<open>add_argument\<close> calls.\<close>

definition defaults :: cli_options where
  "defaults =
     \<lparr>command = None,
      template_file = Path ''template.yaml'',
      output_template = Path ''transformed-template.json'',
      s3_bucket = None,
      capabilities = None,
      stack_name = None,
      verbose = False\<rparr>"

text \<open>
  One pass over the arguments. The positional \<^verbatim>\<open>command\<close> has
  \<^verbatim>\<open>nargs="?"\<close>: the first positional string fills it (\<open>taken\<close>), later ones are
  left over (\<open>extras\<close>) and make \<^verbatim>\<open>parse_args\<close> exit with status 2 at the end. An
  option given twice keeps its last value. \<^verbatim>\<open>--help\<close> exits with status 0
  where it stands.
\<close>

fun consume :: "cli_arg list \<Rightarrow> bool \<Rightarrow> string list \<Rightarrow> cli_options \<Rightarrow> exn + cli_options" where
  "consume [] taken extras ns = (if extras = [] then Inr ns else Inl (SystemExit 2))"
| "consume (Positional s # rest) taken extras ns =
     (if taken then consume rest taken (extras @ [s]) ns
      else consume rest True extras (ns\<lparr>command := Some s\<rparr>))"
| "consume (Opt_template_file v # rest) taken extras ns =
     consume rest taken extras (ns\<lparr>template_file := Path v\<rparr>)"
| "consume (Opt_output_template v # rest) taken extras ns =
     consume rest taken extras (ns\<lparr>output_template := Path v\<rparr>)"
| "consume (Opt_s3_bucket v # rest) taken extras ns =
     consume rest taken extras (ns\<lparr>s3_bucket := Some v\<rparr>)"
| "consume (Opt_capabilities v # rest) taken extras ns =
     consume rest taken extras (ns\<lparr>capabilities := Some v\<rparr>)"
| "consume (Opt_stack_name v # rest) taken extras ns =
     consume rest taken extras (ns\<lparr>stack_name := Some v\<rparr>)"
| "consume (Opt_verbose # rest) taken extras ns =
     consume rest taken extras (ns\<lparr>verbose := True\<rparr>)"
| "consume (Opt_help # rest) taken extras ns = Inl (SystemExit 0)"

definition parse_args :: "cli_arg list \<Rightarrow> exn + cli_options" where
  "parse_args argv = consume argv False [] defaults"

subsection \<open>Running the cloud CLI (lines 69 to 82)\<close>

definition log_debug :: "cli_options \<Rightarrow> debug_msg \<Rightarrow> world \<Rightarrow> world" where
  "log_debug cli msg w = (if verbose cli then emit (LogDebug msg) w else w)"

text \<open>
  \<^verbatim>\<open>subprocess.check_call\<close>: an argument that is \<^verbatim>\<open>None\<close> is a
  \<^verbatim>\<open>TypeError\<close> before any process is started, an executable that is not found is
  a \<^verbatim>\<open>FileNotFoundError\<close>, a return code other than 0 is a
  \<^verbatim>\<open>CalledProcessError\<close> carrying it.
\<close>

definition check_call :: "env \<Rightarrow> arg list \<Rightarrow> world \<Rightarrow> (exn + unit) \<times> world" where
  "check_call ev command_with_args w =
     (let w1 = emit (CheckCall command_with_args) w
      in case those (map fspath command_with_args) of
           None \<Rightarrow> (Inl TypeError, w1)
         | Some argv \<Rightarrow>
             (case run_process ev argv (files w1) of
                None \<Rightarrow> (Inl FileNotFoundError, w1)
              | Some (returncode, fs') \<Rightarrow>
                  (if returncode = 0 then Inr () else Inl (CalledProcessError returncode),
                   w1\<lparr>files := fs'\<rparr>)))"

definition aws_cmd :: "env \<Rightarrow> string" where
  "aws_cmd ev = (if lower (platform_system ev) \<noteq> ''windows'' then ''aws'' else ''aws.cmd'')"

definition execute_command ::
  "env \<Rightarrow> cli_options \<Rightarrow> string \<Rightarrow> arg list \<Rightarrow> world \<Rightarrow> (exn + unit) \<times> world" where
  "execute_command ev cli cmd args w =
     (let command_with_args = [Str (aws_cmd ev), Str ''cloudformation'', Str cmd] @ args;
          w1 = log_debug cli (Executing_command command_with_args) w
      in case check_call ev command_with_args w1 of
           (Inr u, w2) \<Rightarrow> (Inr (), log_debug cli Command_successful w2)
         | (Inl (CalledProcessError returncode), w2) \<Rightarrow>
             (Inl (SystemExit returncode), log_debug cli (Exception_msg returncode) w2)
         | (Inl e, w2) \<Rightarrow> (Inl e, w2))"

subsection \<open>The three stages (lines 85 to 126)\<close>

text \<open>
  A local variable that has the name of an option is written with a prime, the option
  itself being a field of \<^typ>\<open>cli_options\<close>.
\<close>

definition package :: "env \<Rightarrow> cli_options \<Rightarrow> path \<Rightarrow> world \<Rightarrow> (exn + path) \<times> world" where
  "package ev cli input_file_path w =
     (let template_file' = input_file_path;
          package_output_template_file = Path (str input_file_path @ ''._sam_packaged_.yaml'');
          s3_bucket' = s3_bucket cli;
          args = [Str ''--template-file'', PathArg template_file',
                  Str ''--output-template-file'', PathArg package_output_template_file,
                  Str ''--s3-bucket'', opt_arg s3_bucket']
      in case execute_command ev cli ''package'' args w of
           (Inl e, w1) \<Rightarrow> (Inl e, w1)
         | (Inr u, w1) \<Rightarrow> (Inr package_output_template_file, w1))"

definition error_message :: "validation_error \<Rightarrow> string" where
  "error_message e = foldl (\<lambda>message error. message @ '' '' @ error) (message e) (causes e)"

text \<open>
  \<^verbatim>\<open>transform_template\<close>: opening and parsing the input happen before the
  \<^verbatim>\<open>try\<close>, so their exceptions leave the function; inside it only
  \<^verbatim>\<open>InvalidDocumentException\<close> is caught. The second \<^verbatim>\<open>LOG.error\<close> is handed
  a generator over the cause messages, which the logger prints without running it.
\<close>

definition transform_template :: "env \<Rightarrow> path \<Rightarrow> path \<Rightarrow> world \<Rightarrow> (exn + unit) \<times> world" where
  "transform_template ev input_file_path output_file_path w =
     (let w1 = emit (Open_file input_file_path) w
      in case files w1 input_file_path of
           None \<Rightarrow> (Inl FileNotFoundError, w1)
         | Some text \<Rightarrow>
             (case yaml_parse ev text of
                Inl e \<Rightarrow> (Inl e, w1)
              | Inr sam_template \<Rightarrow>
                  (case transform ev sam_template [] of
                     Inl (InvalidDocumentException e) \<Rightarrow>
                       (Inr (),
                        emit (LogErrorGenerator (causes e)) (emit (LogError (error_message e)) w1))
                   | Inl e \<Rightarrow> (Inl e, w1)
                   | Inr cloud_formation_template \<Rightarrow>
                       (let cloud_formation_template_prettified =
                              json_dumps 1 cloud_formation_template
                        in if writable ev output_file_path
                           then (Inr (),
                                 emit (Print [''Wrote transformed CloudFormation template to: '',
                                              str output_file_path])
                                   (emit (WriteText output_file_path cloud_formation_template_prettified)
                                      (w1\<lparr>files := (files w1)(output_file_path \<mapsto>
                                              cloud_formation_template_prettified)\<rparr>)))
                           else (Inl OSError, w1)))))"

definition deploy :: "env \<Rightarrow> cli_options \<Rightarrow> path \<Rightarrow> world \<Rightarrow> (exn + unit) \<times> world" where
  "deploy ev cli template_file' w =
     (let capabilities' = capabilities cli;
          stack_name' = stack_name cli;
          args = [Str ''--template-file'', PathArg template_file',
                  Str ''--capabilities'', opt_arg capabilities',
                  Str ''--stack-name'', opt_arg stack_name']
      in execute_command ev cli ''deploy'' args w)"

subsection \<open>The dispatch (lines 129 to 141)\<close>

definition main :: "env \<Rightarrow> cli_options \<Rightarrow> world \<Rightarrow> (exn + unit) \<times> world" where
  "main ev cli w =
     (let input_file_path = template_file cli;
          output_file_path = output_template cli
      in if command cli = Some ''package'' then
           (case package ev cli input_file_path w of
              (Inl e, w1) \<Rightarrow> (Inl e, w1)
            | (Inr package_output_template_file, w1) \<Rightarrow>
                transform_template ev package_output_template_file output_file_path w1)
         else if command cli = Some ''deploy'' then
           (case package ev cli input_file_path w of
              (Inl e, w1) \<Rightarrow> (Inl e, w1)
            | (Inr package_output_template_file, w1) \<Rightarrow>
                (case transform_template ev package_output_template_file output_file_path w1 of
                   (Inl e, w2) \<Rightarrow> (Inl e, w2)
                 | (Inr u, w2) \<Rightarrow> deploy ev cli output_file_path w2))
         else transform_template ev input_file_path output_file_path w)"

text \<open>
  The status with which the process ends, on a POSIX system: 0 when the script runs to
  its end; for a \<^verbatim>\<open>SystemExit\<close> the argument of \<^verbatim>\<open>sys.exit\<close> modulo 256 (a
  child killed by signal 9 has the return code -9, and the status is then 247); 1 for
  any other exception that nothing catches.
\<close>

fun exit_code :: "exn + unit \<Rightarrow> int" where
  "exit_code (Inr u) = 0"
| "exit_code (Inl (SystemExit n)) = n mod 256"
| "exit_code (Inl e) = 1"

subsection \<open>Reading a trace\<close>

datatype stage = Packaging | Transforming | Deploying

text \<open>
  Each stage starts with one effect of its own: the two calls of the cloud CLI are told
  apart by the sub-command in the command line, \<^verbatim>\<open>transform_template\<close> opens its
  input.
\<close>

fun stage_of :: "event \<Rightarrow> stage option" where
  "stage_of (Open_file p) = Some Transforming"
| "stage_of (CheckCall (a # b # Str c # args)) =
     (if c = ''package'' then Some Packaging
      else if c = ''deploy'' then Some Deploying else None)"
| "stage_of e = None"

definition stages :: "event list \<Rightarrow> stage list" where
  "stages tr = List.map_filter stage_of tr"

fun check_call_of :: "event \<Rightarrow> arg list option" where
  "check_call_of (CheckCall args) = Some args"
| "check_call_of e = None"

definition check_calls :: "event list \<Rightarrow> arg list list" where
  "check_calls tr = List.map_filter check_call_of tr"

fun write_of :: "event \<Rightarrow> (path \<times> string) option" where
  "write_of (WriteText p s) = Some (p, s)"
| "write_of e = None"

definition writes :: "event list \<Rightarrow> (path \<times> string) list" where
  "writes tr = List.map_filter write_of tr"

fun log_error_of :: "event \<Rightarrow> string option" where
  "log_error_of (LogError s) = Some s"
| "log_error_of e = None"

definition logged_errors :: "event list \<Rightarrow> string list" where
  "logged_errors tr = List.map_filter log_error_of tr"

text \<open>The stages that the dispatch lays out for a sub-command.\<close>

definition plan :: "string option \<Rightarrow> stage list" where
  "plan c =
     (if c = Some ''package'' then [Packaging, Transforming]
      else if c = Some ''deploy'' then [Packaging, Transforming, Deploying]
      else [Transforming])"

text \<open>A run starts with nothing done yet.\<close>

definition start :: "fs \<Rightarrow> world" where
  "start fs = \<lparr>files = fs, trace = []\<rparr>"

subsection \<open>A sample environment\<close>

text \<open>
  A child process that ends with the given return code (or cannot be launched, for
  \<open>None\<close>); a successful \<^verbatim>\<open>package\<close> copies the template to the output path it
  was given. The sample parser accepts two texts, and the sample transformation rejects
  one of the two documents with two causes.
\<close>

fun sample_child :: "int option \<Rightarrow> string list \<Rightarrow> fs \<Rightarrow> (int \<times> fs) option" where
  "sample_child None argv fs = None"
| "sample_child (Some rc) [aws, cf, cmd, o1, src, o2, dst, o3, v3] fs =
     Some (rc, if rc = 0 \<and> cmd = ''package''
               then (case fs (Path src) of None \<Rightarrow> fs | Some t \<Rightarrow> fs(Path dst \<mapsto> t))
               else fs)"
| "sample_child (Some rc) argv fs = Some (rc, fs)"

definition sample_invalid :: validation_error where
  "sample_invalid = \<lparr>message = ''Invalid document.'', causes = [''first'', ''second'']\<rparr>"

definition sample_env :: "int option \<Rightarrow> env" where
  "sample_env child =
     \<lparr>platform_system = ''Linux'',
      run_process = sample_child child,
      yaml_parse = (\<lambda>text.
         if text = ''Resources: {}'' then Inr (JDict [(''Resources'', JDict [])])
         else if text = ''Bad: 1'' then Inr (JDict [(''Bad'', JInt 1)])
         else Inl (YAMLError text)),
      transform = (\<lambda>doc overrides.
         if doc = JDict [(''Bad'', JInt 1)] then Inl (InvalidDocumentException sample_invalid)
         else Inr doc),
      writable = (\<lambda>p. True)\<rparr>"

definition sample_files :: fs where
  "sample_files =
     [Path ''template.yaml'' \<mapsto> ''Resources: {}'',
      Path ''bad.yaml'' \<mapsto> ''Bad: 1'',
      Path ''broken.yaml'' \<mapsto> ''{'',
      Path ''transformed-template.json'' \<mapsto> ''old'']"

definition sample_cli :: "string option \<Rightarrow> string \<Rightarrow> cli_options" where
  "sample_cli c t =
     defaults\<lparr>command := c, template_file := Path t, s3_bucket := Some ''my-bucket'',
              capabilities := Some ''CAPABILITY_IAM'', stack_name := Some ''my-stack''\<rparr>"

section \<open>Properties\<close>

lemma map_filter_append:
  "List.map_filter f (xs @ ys) = List.map_filter f xs @ List.map_filter f ys"
  by (simp add: List.map_filter_def)

lemma trace_emit [simp]: "trace (emit e w) = trace w @ [e]"
  by (simp add: emit_def)

lemma files_emit [simp]: "files (emit e w) = files w"
  by (simp add: emit_def)

lemma files_log_debug [simp]: "files (log_debug cli m w) = files w"
  by (simp add: log_debug_def)

lemma stages_append [simp]: "stages (xs @ ys) = stages xs @ stages ys"
  by (simp add: stages_def map_filter_append)

lemma stages_Nil [simp]: "stages [] = []"
  by (simp add: stages_def)

lemma stages_Cons [simp]:
  "stages (e # tr) = (case stage_of e of None \<Rightarrow> stages tr | Some s \<Rightarrow> s # stages tr)"
  by (simp add: stages_def List.map_filter_def split: option.splits)

lemma check_calls_append [simp]: "check_calls (xs @ ys) = check_calls xs @ check_calls ys"
  by (simp add: check_calls_def map_filter_append)

lemma check_calls_Nil [simp]: "check_calls [] = []"
  by (simp add: check_calls_def)

lemma check_calls_Cons [simp]:
  "check_calls (e # tr) = (case check_call_of e of None \<Rightarrow> check_calls tr | Some s \<Rightarrow> s # check_calls tr)"
  by (simp add: check_calls_def List.map_filter_def split: option.splits)

lemma writes_append [simp]: "writes (xs @ ys) = writes xs @ writes ys"
  by (simp add: writes_def map_filter_append)

lemma writes_Nil [simp]: "writes [] = []"
  by (simp add: writes_def)

lemma writes_Cons [simp]:
  "writes (e # tr) = (case write_of e of None \<Rightarrow> writes tr | Some s \<Rightarrow> s # writes tr)"
  by (simp add: writes_def List.map_filter_def split: option.splits)

lemma logged_errors_append [simp]:
  "logged_errors (xs @ ys) = logged_errors xs @ logged_errors ys"
  by (simp add: logged_errors_def map_filter_append)

lemma logged_errors_Nil [simp]: "logged_errors [] = []"
  by (simp add: logged_errors_def)

lemma logged_errors_Cons [simp]:
  "logged_errors (e # tr) = (case log_error_of e of None \<Rightarrow> logged_errors tr | Some s \<Rightarrow> s # logged_errors tr)"
  by (simp add: logged_errors_def List.map_filter_def split: option.splits)

lemma trace_log_debug:
  "trace (log_debug cli m w) = trace w @ (if verbose cli then [LogDebug m] else [])"
  by (simp add: log_debug_def)

lemma stages_log_debug [simp]: "stages (trace (log_debug cli m w)) = stages (trace w)"
  by (simp add: trace_log_debug)

lemma check_calls_log_debug [simp]:
  "check_calls (trace (log_debug cli m w)) = check_calls (trace w)"
  by (simp add: trace_log_debug)

lemma writes_log_debug [simp]: "writes (trace (log_debug cli m w)) = writes (trace w)"
  by (simp add: trace_log_debug)

lemma logged_errors_log_debug [simp]:
  "logged_errors (trace (log_debug cli m w)) = logged_errors (trace w)"
  by (simp add: trace_log_debug)

text \<open>What \<^const>\<open>check_call\<close> leaves in the trace, whatever its outcome.\<close>

lemma trace_check_call:
  "trace (snd (check_call ev cmdline w)) = trace w @ [CheckCall cmdline]"
  by (simp add: check_call_def Let_def split: option.splits prod.splits)


lemma execute_command_stages:
  "stages (trace (snd (execute_command ev cli cmd args w)))
     = stages (trace w) @ stages [CheckCall ([Str (aws_cmd ev), Str ''cloudformation'', Str cmd] @ args)]"
  by (auto simp add: execute_command_def check_call_def Let_def
      split: option.splits sum.splits exn.splits prod.splits)

lemma execute_command_check_calls:
  "check_calls (trace (snd (execute_command ev cli cmd args w)))
     = check_calls (trace w) @ [[Str (aws_cmd ev), Str ''cloudformation'', Str cmd] @ args]"
  by (auto simp add: execute_command_def check_call_def Let_def
      split: option.splits sum.splits exn.splits prod.splits)

lemma execute_command_writes:
  "writes (trace (snd (execute_command ev cli cmd args w))) = writes (trace w)"
  by (auto simp add: execute_command_def check_call_def Let_def
      split: option.splits sum.splits exn.splits prod.splits)

lemma package_stages:
  "stages (trace (snd (package ev cli p w))) = stages (trace w) @ [Packaging]"
proof -
  have "stages (trace (snd (package ev cli p w)))
      = stages (trace (snd (execute_command ev cli ''package''
          [Str ''--template-file'', PathArg p, Str ''--output-template-file'',
           PathArg (Path (str p @ ''._sam_packaged_.yaml'')),
           Str ''--s3-bucket'', opt_arg (s3_bucket cli)] w)))"
    by (simp add: package_def Let_def split: prod.splits sum.splits)
  then show ?thesis
    by (simp add: execute_command_stages)
qed

lemma package_result:
  "fst (package ev cli p w) = Inr q \<Longrightarrow> q = Path (str p @ ''._sam_packaged_.yaml'')"
  by (auto simp add: package_def Let_def split: prod.splits sum.splits)

lemma deploy_stages:
  "stages (trace (snd (deploy ev cli p w))) = stages (trace w) @ [Deploying]"
  by (simp add: deploy_def Let_def execute_command_stages)

lemma transform_template_stages:
  "stages (trace (snd (transform_template ev inp out w))) = stages (trace w) @ [Transforming]"
  by (auto simp add: transform_template_def Let_def
      split: option.splits sum.splits exn.splits)


lemmas sample_defs =
  sample_env_def sample_files_def sample_cli_def sample_invalid_def defaults_def start_def

lemmas run_defs =
  main_def package_def deploy_def transform_template_def execute_command_def check_call_def
  aws_cmd_def log_debug_def emit_def lower_def lower_char_def error_message_def Let_def

text \<open>The outcome of \<^const>\<open>transform_template\<close> when the transformation is rejected.\<close>

lemma transform_template_invalid:
  assumes "files w inp = Some text" and "yaml_parse ev text = Inr doc"
    and "transform ev doc [] = Inl (InvalidDocumentException e)"
  shows "transform_template ev inp out w =
    (Inr (), emit (LogErrorGenerator (causes e)) (emit (LogError (error_message e))
       (emit (Open_file inp) w)))"
  using assms by (simp add: transform_template_def Let_def)

lemma main_default:
  assumes "command cli \<noteq> Some ''package''" and "command cli \<noteq> Some ''deploy''"
  shows "main ev cli w = transform_template ev (template_file cli) (output_template cli) w"
  using assms by (simp add: main_def Let_def)

text \<open>
  C10: a sub-command that is neither \<^verbatim>\<open>package\<close> nor \<^verbatim>\<open>deploy\<close>, whatever
  string it is, runs exactly what no sub-command runs: the transformation alone, on
  the configured input path, and neither packaging nor deploying.
\<close>

theorem other_command_is_default:
  assumes "command cli \<noteq> Some ''package''" and "command cli \<noteq> Some ''deploy''"
  shows "main ev cli w = main ev (cli\<lparr>command := None\<rparr>) w
    \<and> main ev cli w = transform_template ev (template_file cli) (output_template cli) w
    \<and> stages (trace (snd (main ev cli w))) = stages (trace w) @ [Transforming]
    \<and> check_calls (trace (snd (main ev cli w))) = check_calls (trace w)"
proof -
  have m: "main ev cli w = transform_template ev (template_file cli) (output_template cli) w"
    using assms by (rule main_default)
  have n: "main ev (cli\<lparr>command := None\<rparr>) w
      = transform_template ev (template_file cli) (output_template cli) w"
    by (simp add: main_def Let_def)
  have c: "check_calls (trace (snd (transform_template ev (template_file cli) (output_template cli) w)))
      = check_calls (trace w)"
    by (auto simp add: transform_template_def Let_def split: option.splits sum.splits exn.splits)
  show ?thesis
    by (simp add: m n c transform_template_stages)
qed

theorem other_command_is_default_witness:
  "command (sample_cli (Some ''pakage'') ''template.yaml'') \<noteq> Some ''package''
   \<and> command (sample_cli (Some ''pakage'') ''template.yaml'') \<noteq> Some ''deploy''
   \<and> stages (trace (snd (main (sample_env (Some 0)) (sample_cli (Some ''pakage'') ''template.yaml'')
        (start sample_files)))) = [Transforming]"
proof -
  have a: "command (sample_cli (Some ''pakage'') ''template.yaml'') \<noteq> Some ''package''"
    by (simp add: sample_defs)
  have b: "command (sample_cli (Some ''pakage'') ''template.yaml'') \<noteq> Some ''deploy''"
    by (simp add: sample_defs)
  from other_command_is_default [OF a b, of "sample_env (Some 0)" "start sample_files"]
  have "stages (trace (snd (main (sample_env (Some 0)) (sample_cli (Some ''pakage'') ''template.yaml'')
        (start sample_files)))) = stages (trace (start sample_files)) @ [Transforming]"
    by blast
  with a b show ?thesis
    by (simp add: start_def)
qed

text \<open>
  C9: when the cloud CLI cannot be launched, \<^verbatim>\<open>execute_command\<close> lets the
  \<^verbatim>\<open>FileNotFoundError\<close> through: it is not turned into the \<^verbatim>\<open>SystemExit\<close>
  that a child's return code becomes, and the files stay as they were.
\<close>

theorem launch_failure_is_not_exit:
  assumes "those (map fspath args) = Some argv"
    and "run_process ev ([aws_cmd ev, ''cloudformation'', cmd] @ argv) (files w) = None"
  shows "fst (execute_command ev cli cmd args w) = Inl FileNotFoundError
    \<and> (\<forall>n. fst (execute_command ev cli cmd args w) \<noteq> Inl (SystemExit n))
    \<and> files (snd (execute_command ev cli cmd args w)) = files w"
  using assms by (simp add: execute_command_def check_call_def Let_def)

theorem launch_failure_is_not_exit_witness:
  "fst (execute_command (sample_env None) (sample_cli (Some ''deploy'') ''template.yaml'') ''deploy''
      [Str ''--template-file'', PathArg (Path ''transformed-template.json'')]
      (start sample_files)) = Inl FileNotFoundError"
proof -
  have a: "those (map fspath [Str ''--template-file'', PathArg (Path ''transformed-template.json'')])
      = Some [''--template-file'', ''transformed-template.json'']"
    by simp
  have b: "run_process (sample_env None)
      ([aws_cmd (sample_env None), ''cloudformation'', ''deploy'']
        @ [''--template-file'', ''transformed-template.json''])
      (files (start sample_files)) = None"
    by (simp add: sample_env_def)
  from launch_failure_is_not_exit [OF a b] show ?thesis
    by simp
qed


text \<open>
  C7: when the default sub-command reads a template that \<^verbatim>\<open>yaml_parse\<close> rejects, the
  parse error leaves \<^verbatim>\<open>transform_template\<close> before anything is written: the files
  are as they were and the trace has no write.
\<close>

theorem parse_error_writes_nothing:
  assumes "command cli \<noteq> Some ''package''" and "command cli \<noteq> Some ''deploy''"
    and "files w (template_file cli) = Some text" and "yaml_parse ev text = Inl e"
  shows "fst (main ev cli w) = Inl e
    \<and> files (snd (main ev cli w)) = files w
    \<and> writes (trace (snd (main ev cli w))) = writes (trace w)"
proof -
  have "main ev cli w = (Inl e, emit (Open_file (template_file cli)) w)"
    using assms by (simp add: main_default transform_template_def Let_def)
  then show ?thesis
    by simp
qed

theorem parse_error_writes_nothing_witness:
  "fst (main (sample_env (Some 0)) (sample_cli None ''broken.yaml'') (start sample_files))
     = Inl (YAMLError ''{'')
   \<and> files (snd (main (sample_env (Some 0)) (sample_cli None ''broken.yaml'') (start sample_files)))
       (Path ''transformed-template.json'') = Some ''old''"
proof -
  have a: "command (sample_cli None ''broken.yaml'') \<noteq> Some ''package''"
    by (simp add: sample_defs)
  have b: "command (sample_cli None ''broken.yaml'') \<noteq> Some ''deploy''"
    by (simp add: sample_defs)
  have c: "files (start sample_files) (template_file (sample_cli None ''broken.yaml'')) = Some ''{''"
    by (simp add: sample_defs)
  have d: "yaml_parse (sample_env (Some 0)) ''{'' = Inl (YAMLError ''{'')"
    by (simp add: sample_env_def)
  have f: "files (start sample_files) (Path ''transformed-template.json'') = Some ''old''"
    by (simp add: sample_defs)
  from parse_error_writes_nothing [OF a b c d] f show ?thesis
    by simp
qed

text \<open>
  C6: for a validation error with two causes, the \<^verbatim>\<open>reduce\<close> of line 115 builds
  the top-level message, a space, the first cause, a space, the second cause, and this
  is the message that the first \<^verbatim>\<open>LOG.error\<close> logs.
\<close>

theorem two_causes_message:
  assumes "files w inp = Some text" and "yaml_parse ev text = Inr doc"
    and "transform ev doc [] = Inl (InvalidDocumentException e)"
    and "causes e = [c1, c2]"
  shows "error_message e = message e @ '' '' @ c1 @ '' '' @ c2
    \<and> logged_errors (trace (snd (transform_template ev inp out w)))
        = logged_errors (trace w) @ [message e @ '' '' @ c1 @ '' '' @ c2]"
proof -
  have m: "error_message e = message e @ '' '' @ c1 @ '' '' @ c2"
    using assms(4) by (simp add: error_message_def)
  show ?thesis
    using m by (simp add: transform_template_invalid [OF assms(1-3)])
qed

theorem two_causes_message_witness:
  "logged_errors (trace (snd (transform_template (sample_env (Some 0)) (Path ''bad.yaml'')
      (Path ''transformed-template.json'') (start sample_files))))
     = [''Invalid document. first second'']"
proof -
  have a: "files (start sample_files) (Path ''bad.yaml'') = Some ''Bad: 1''"
    by (simp add: sample_defs)
  have b: "yaml_parse (sample_env (Some 0)) ''Bad: 1'' = Inr (JDict [(''Bad'', JInt 1)])"
    by (simp add: sample_env_def)
  have c: "transform (sample_env (Some 0)) (JDict [(''Bad'', JInt 1)]) []
      = Inl (InvalidDocumentException sample_invalid)"
    by (simp add: sample_env_def)
  have d: "causes sample_invalid = [''first'', ''second'']"
    by (simp add: sample_invalid_def)
  from two_causes_message [OF a b c d, where out = "Path ''transformed-template.json''"]
  show ?thesis
    by (simp add: sample_invalid_def start_def)
qed

lemma package_check_calls:
  "check_calls (trace (snd (package ev cli p w)))
     = check_calls (trace w) @
       [[Str (aws_cmd ev), Str ''cloudformation'', Str ''package'',
         Str ''--template-file'', PathArg p,
         Str ''--output-template-file'', PathArg (Path (str p @ ''._sam_packaged_.yaml'')),
         Str ''--s3-bucket'', opt_arg (s3_bucket cli)]]"
proof -
  have "check_calls (trace (snd (package ev cli p w)))
      = check_calls (trace (snd (execute_command ev cli ''package''
          [Str ''--template-file'', PathArg p, Str ''--output-template-file'',
           PathArg (Path (str p @ ''._sam_packaged_.yaml'')),
           Str ''--s3-bucket'', opt_arg (s3_bucket cli)] w)))"
    by (simp add: package_def Let_def split: prod.splits sum.splits)
  then show ?thesis
    by (simp add: execute_command_check_calls)
qed

lemma package_writes:
  "writes (trace (snd (package ev cli p w))) = writes (trace w)"
proof -
  have "writes (trace (snd (package ev cli p w)))
      = writes (trace (snd (execute_command ev cli ''package''
          [Str ''--template-file'', PathArg p, Str ''--output-template-file'',
           PathArg (Path (str p @ ''._sam_packaged_.yaml'')),
           Str ''--s3-bucket'', opt_arg (s3_bucket cli)] w)))"
    by (simp add: package_def Let_def split: prod.splits sum.splits)
  then show ?thesis
    by (simp add: execute_command_writes)
qed

text \<open>The dispatch after the packaging stage, by the outcome of \<^const>\<open>package\<close>.\<close>

lemma main_package_raises:
  assumes "command cli = Some ''package'' \<or> command cli = Some ''deploy''"
    and "fst (package ev cli (template_file cli) w) = Inl e"
  shows "main ev cli w = (Inl e, snd (package ev cli (template_file cli) w))"
  using assms by (auto simp add: main_def Let_def split: prod.splits sum.splits)

lemma main_package_returns:
  assumes "command cli = Some ''package''"
    and "package ev cli (template_file cli) w = (Inr q, w1)"
  shows "main ev cli w = transform_template ev q (output_template cli) w1"
  using assms by (simp add: main_def Let_def)

lemma main_deploy_returns:
  assumes "command cli = Some ''deploy''"
    and "package ev cli (template_file cli) w = (Inr q, w1)"
  shows "main ev cli w =
    (case transform_template ev q (output_template cli) w1 of
       (Inl e, w2) \<Rightarrow> (Inl e, w2)
     | (Inr u, w2) \<Rightarrow> deploy ev cli (output_template cli) w2)"
  using assms by (simp add: main_def Let_def)

text \<open>
  C4: \<^verbatim>\<open>package\<close> calls the cloud CLI with the input path and, as output path,
  the string of the input path followed by \<^verbatim>\<open>._sam_packaged_.yaml\<close>, whatever
  \<^verbatim>\<open>--output-template\<close> is; when it returns, it returns that path, and the dispatch
  hands it to \<^verbatim>\<open>transform_template\<close> as the input.
\<close>

theorem packaging_output_path:
  "check_calls (trace (snd (package ev cli p w)))
     = check_calls (trace w) @
       [[Str (aws_cmd ev), Str ''cloudformation'', Str ''package'',
         Str ''--template-file'', PathArg p,
         Str ''--output-template-file'', PathArg (Path (str p @ ''._sam_packaged_.yaml'')),
         Str ''--s3-bucket'', opt_arg (s3_bucket cli)]]
   \<and> package ev (cli\<lparr>output_template := out'\<rparr>) p w = package ev cli p w
   \<and> (package ev cli p w = (Inr q, w1) \<longrightarrow> q = Path (str p @ ''._sam_packaged_.yaml''))
   \<and> (command cli = Some ''package'' \<and> package ev cli (template_file cli) w = (Inr q, w1)
       \<longrightarrow> main ev cli w
           = transform_template ev (Path (str (template_file cli) @ ''._sam_packaged_.yaml''))
               (output_template cli) w1)
   \<and> (command cli = Some ''deploy'' \<and> package ev cli (template_file cli) w = (Inr q, w1)
       \<longrightarrow> main ev cli w
           = (case transform_template ev (Path (str (template_file cli) @ ''._sam_packaged_.yaml''))
                    (output_template cli) w1 of
                (Inl e, w2) \<Rightarrow> (Inl e, w2)
              | (Inr u, w2) \<Rightarrow> deploy ev cli (output_template cli) w2))"
proof -
  have ld: "log_debug (cli\<lparr>output_template := out'\<rparr>) = log_debug cli"
    by (rule ext)+ (simp add: log_debug_def)
  have indep: "package ev (cli\<lparr>output_template := out'\<rparr>) p w = package ev cli p w"
    unfolding package_def execute_command_def ld by simp
  have res: "q = Path (str p' @ ''._sam_packaged_.yaml'')"
    if "package ev cli p' w = (Inr q, w1)" for p'
    using that package_result [of ev cli p' w q] by simp
  show ?thesis
    using indep res [of p] res [of "template_file cli"]
    by (auto simp add: package_check_calls main_package_returns main_deploy_returns)
qed

theorem packaging_output_path_witness:
  "command (sample_cli (Some ''package'') ''template.yaml'') = Some ''package''
   \<and> fst (package (sample_env (Some 0)) (sample_cli (Some ''package'') ''template.yaml'')
         (template_file (sample_cli (Some ''package'') ''template.yaml'')) (start sample_files))
       = Inr (Path ''template.yaml._sam_packaged_.yaml'')
   \<and> main (sample_env (Some 0)) (sample_cli (Some ''package'') ''template.yaml'') (start sample_files)
       = transform_template (sample_env (Some 0)) (Path ''template.yaml._sam_packaged_.yaml'')
           (Path ''transformed-template.json'')
           (snd (package (sample_env (Some 0)) (sample_cli (Some ''package'') ''template.yaml'')
             (template_file (sample_cli (Some ''package'') ''template.yaml'')) (start sample_files)))"
proof -
  have c: "command (sample_cli (Some ''package'') ''template.yaml'') = Some ''package''"
    by (simp add: sample_defs)
  have t: "template_file (sample_cli (Some ''package'') ''template.yaml'') = Path ''template.yaml''"
    by (simp add: sample_defs)
  have o: "output_template (sample_cli (Some ''package'') ''template.yaml'')
      = Path ''transformed-template.json''"
    by (simp add: sample_defs)
  have f: "fst (package (sample_env (Some 0)) (sample_cli (Some ''package'') ''template.yaml'')
         (Path ''template.yaml'') (start sample_files))
       = Inr (Path ''template.yaml._sam_packaged_.yaml'')"
    by (simp add: sample_defs run_defs)
  have e: "package (sample_env (Some 0)) (sample_cli (Some ''package'') ''template.yaml'')
         (template_file (sample_cli (Some ''package'') ''template.yaml'')) (start sample_files)
       = (Inr (Path ''template.yaml._sam_packaged_.yaml''),
          snd (package (sample_env (Some 0)) (sample_cli (Some ''package'') ''template.yaml'')
            (template_file (sample_cli (Some ''package'') ''template.yaml'')) (start sample_files)))"
    using f by (simp add: t prod_eq_iff)
  from packaging_output_path [where ev = "sample_env (Some 0)"
      and cli = "sample_cli (Some ''package'') ''template.yaml''"
      and w = "start sample_files" and q = "Path ''template.yaml._sam_packaged_.yaml''"
      and ?w1.0 = "snd (package (sample_env (Some 0)) (sample_cli (Some ''package'') ''template.yaml'')
            (template_file (sample_cli (Some ''package'') ''template.yaml'')) (start sample_files))"]
    c e f
  show ?thesis
    by (simp add: t o)
qed


lemma deploy_check_calls:
  "check_calls (trace (snd (deploy ev cli p w)))
     = check_calls (trace w) @
       [[Str (aws_cmd ev), Str ''cloudformation'', Str ''deploy'',
         Str ''--template-file'', PathArg p,
         Str ''--capabilities'', opt_arg (capabilities cli),
         Str ''--stack-name'', opt_arg (stack_name cli)]]"
  by (simp add: deploy_def Let_def execute_command_check_calls)

text \<open>The stages of a whole run, branch by branch of the dispatch.\<close>

lemma main_stages_cases:
  "stages (trace (snd (main ev cli w))) =
     stages (trace w) @
     (if command cli = Some ''package'' then
        (case fst (package ev cli (template_file cli) w) of
           Inl e \<Rightarrow> [Packaging] | Inr q \<Rightarrow> [Packaging, Transforming])
      else if command cli = Some ''deploy'' then
        (case fst (package ev cli (template_file cli) w) of
           Inl e \<Rightarrow> [Packaging]
         | Inr q \<Rightarrow>
             (case fst (transform_template ev q (output_template cli)
                          (snd (package ev cli (template_file cli) w))) of
                Inl e \<Rightarrow> [Packaging, Transforming]
              | Inr u \<Rightarrow> [Packaging, Transforming, Deploying]))
      else [Transforming])"
proof -
  obtain r w1 where p: "package ev cli (template_file cli) w = (r, w1)"
    by (cases "package ev cli (template_file cli) w")
  have s1: "stages (trace w1) = stages (trace w) @ [Packaging]"
    using package_stages [of ev cli "template_file cli" w] p by simp
  show ?thesis
  proof (cases r)
    case (Inl e)
    then show ?thesis
      using p s1 by (simp add: main_def Let_def transform_template_stages)
  next
    case (Inr q)
    obtain r2 w2 where t: "transform_template ev q (output_template cli) w1 = (r2, w2)"
      by (cases "transform_template ev q (output_template cli) w1")
    have s2: "stages (trace w2) = stages (trace w) @ [Packaging, Transforming]"
      using transform_template_stages [of ev q "output_template cli" w1] t s1 by simp
    show ?thesis
      using p Inr t s2
      by (cases r2) (simp_all add: main_def Let_def transform_template_stages deploy_stages)
  qed
qed

lemma main_fst_cases:
  "fst (main ev cli w) =
     (if command cli = Some ''package'' then
        (case fst (package ev cli (template_file cli) w) of
           Inl e \<Rightarrow> Inl e
         | Inr q \<Rightarrow> fst (transform_template ev q (output_template cli)
                        (snd (package ev cli (template_file cli) w))))
      else if command cli = Some ''deploy'' then
        (case fst (package ev cli (template_file cli) w) of
           Inl e \<Rightarrow> Inl e
         | Inr q \<Rightarrow>
             (case fst (transform_template ev q (output_template cli)
                          (snd (package ev cli (template_file cli) w))) of
                Inl e \<Rightarrow> Inl e
              | Inr u \<Rightarrow>
                  fst (deploy ev cli (output_template cli)
                    (snd (transform_template ev q (output_template cli)
                       (snd (package ev cli (template_file cli) w)))))))
      else fst (transform_template ev (template_file cli) (output_template cli) w))"
  by (simp add: main_def Let_def split: prod.splits sum.splits)

lemma main_deploy_reached:
  assumes "command cli = Some ''deploy''"
    and "fst (package ev cli (template_file cli) w) = Inr q"
    and "fst (transform_template ev q (output_template cli)
           (snd (package ev cli (template_file cli) w))) = Inr u"
  shows "main ev cli w =
    deploy ev cli (output_template cli)
      (snd (transform_template ev q (output_template cli)
         (snd (package ev cli (template_file cli) w))))"
  using assms by (auto simp add: main_def Let_def split: prod.splits sum.splits)

text \<open>
  C3, as the claim states it, fails on a run whose packaging stage fails: the
  sub-command is \<^verbatim>\<open>package\<close>, the child ends with return code 2, and packaging is
  the only stage that runs.
\<close>

theorem stages_cut_short_counterexample:
  "stages (trace (snd (main (sample_env (Some 2)) (sample_cli (Some ''package'') ''template.yaml'')
      (start sample_files)))) = [Packaging]
   \<and> stages (trace (snd (main (sample_env (Some 2)) (sample_cli (Some ''package'') ''template.yaml'')
      (start sample_files)))) \<noteq> plan (command (sample_cli (Some ''package'') ''template.yaml''))"
proof -
  have f: "fst (package (sample_env (Some 2)) (sample_cli (Some ''package'') ''template.yaml'')
         (Path ''template.yaml'') (start sample_files)) = Inl (SystemExit 2)"
    by (simp add: sample_defs run_defs)
  have c: "command (sample_cli (Some ''package'') ''template.yaml'') = Some ''package''"
    by (simp add: sample_defs)
  have t: "template_file (sample_cli (Some ''package'') ''template.yaml'') = Path ''template.yaml''"
    by (simp add: sample_defs)
  have e: "stages (trace (start sample_files)) = []"
    by (simp add: start_def)
  show ?thesis
    by (simp add: main_stages_cases c t f e plan_def)
qed

lemma join_Cons_prefix: "\<exists>rest. join sep (x # xs) = x @ rest"
  by (cases xs) simp_all

text \<open>The outcome of \<^const>\<open>transform_template\<close> when every step succeeds.\<close>

lemma transform_template_written:
  assumes "files w inp = Some text" and "yaml_parse ev text = Inr doc"
    and "transform ev doc [] = Inr cfn" and "writable ev out"
  shows "transform_template ev inp out w =
    (Inr (),
     emit (Print [''Wrote transformed CloudFormation template to: '', str out])
       (emit (WriteText out (json_dumps 1 cfn))
          ((emit (Open_file inp) w)\<lparr>files := (files w)(out \<mapsto> json_dumps 1 cfn)\<rparr>)))"
  using assms by (simp add: transform_template_def Let_def)

text \<open>
  C5, as the claim states it, fails on the indentation: the script calls
  \<^verbatim>\<open>json.dumps\<close> with \<^verbatim>\<open>indent=1\<close>. For the document with the one key
  \<^verbatim>\<open>Resources\<close> and an empty dictionary under it, the file written has one space
  before the key, and is not the text that an indentation of two spaces gives.
\<close>

theorem output_indent_counterexample:
  "files (snd (main (sample_env (Some 0)) (sample_cli None ''template.yaml'') (start sample_files)))
       (Path ''transformed-template.json'')
     = Some ([CHR ''{'', CHR 0x0A, CHR '' '', CHR 0x22] @ ''Resources'' @ [CHR 0x22] @ '': {}''
             @ [CHR 0x0A, CHR ''}''])
   \<and> files (snd (main (sample_env (Some 0)) (sample_cli None ''template.yaml'') (start sample_files)))
       (Path ''transformed-template.json'')
     \<noteq> Some (json_dumps 2 (JDict [(''Resources'', JDict [])]))"
proof -
  have a: "files (start sample_files) (Path ''template.yaml'') = Some ''Resources: {}''"
    by (simp add: sample_defs)
  have b: "yaml_parse (sample_env (Some 0)) ''Resources: {}'' = Inr (JDict [(''Resources'', JDict [])])"
    by (simp add: sample_env_def)
  have c: "transform (sample_env (Some 0)) (JDict [(''Resources'', JDict [])]) []
      = Inr (JDict [(''Resources'', JDict [])])"
    by (simp add: sample_env_def)
  have d: "writable (sample_env (Some 0)) (Path ''transformed-template.json'')"
    by (simp add: sample_env_def)
  have m: "main (sample_env (Some 0)) (sample_cli None ''template.yaml'') (start sample_files)
      = transform_template (sample_env (Some 0)) (Path ''template.yaml'')
          (Path ''transformed-template.json'') (start sample_files)"
    by (simp add: main_def Let_def sample_cli_def defaults_def)
  have j1: "json_dumps 1 (JDict [(''Resources'', JDict [])])
      = [CHR ''{'', CHR 0x0A, CHR '' '', CHR 0x22] @ ''Resources'' @ [CHR 0x22] @ '': {}''
             @ [CHR 0x0A, CHR ''}'']"
    by (simp add: json_dumps_def newline_indent_def encode_string_def escape_char_def)
  have j2: "json_dumps 2 (JDict [(''Resources'', JDict [])])
      = [CHR ''{'', CHR 0x0A, CHR '' '', CHR '' '', CHR 0x22] @ ''Resources'' @ [CHR 0x22] @ '': {}''
             @ [CHR 0x0A, CHR ''}'']"
    by (simp add: json_dumps_def newline_indent_def encode_string_def escape_char_def
        numeral_2_eq_2)
  show ?thesis
    unfolding m transform_template_written [OF a b c d] j1 j2
    by simp
qed

text \<open>
  C5, amended: when the transformation succeeds and the output path can be written,
  the file at the output path becomes, whatever it held, the text that
  \<^verbatim>\<open>json.dumps\<close> gives for the transformed document with \<^verbatim>\<open>indent=1\<close>, that is
  with one space for each level of nesting: the first key of a dictionary that is not
  empty stands after a newline and a single space.
\<close>

theorem output_is_json_indent_one:
  assumes "files w inp = Some text" and "yaml_parse ev text = Inr doc"
    and "transform ev doc [] = Inr cfn" and "writable ev out"
  shows "fst (transform_template ev inp out w) = Inr ()
    \<and> files (snd (transform_template ev inp out w)) = (files w)(out \<mapsto> json_dumps 1 cfn)
    \<and> writes (trace (snd (transform_template ev inp out w)))
        = writes (trace w) @ [(out, json_dumps 1 cfn)]
    \<and> (\<forall>k v kvs. take 4 (json_dumps 1 (JDict ((k, v) # kvs)))
          = [CHR ''{'', CHR 0x0A, CHR '' '', CHR 0x22])"
proof -
  have ind: "take 4 (json_dumps 1 (JDict ((k, v) # kvs))) = [CHR ''{'', CHR 0x0A, CHR '' '', CHR 0x22]"
    for k v kvs
  proof -
    obtain rest where "join ('','' @ newline_indent 1 (Suc 0))
        (map (\<lambda>kv. encode_string (fst kv) @ '': '' @ iterencode 1 (Suc 0) (snd kv)) ((k, v) # kvs))
      = (encode_string k @ '': '' @ iterencode 1 (Suc 0) v) @ rest"
      using join_Cons_prefix
        [of "'','' @ newline_indent 1 (Suc 0)" "encode_string k @ '': '' @ iterencode 1 (Suc 0) v"
            "map (\<lambda>kv. encode_string (fst kv) @ '': '' @ iterencode 1 (Suc 0) (snd kv)) kvs"]
      by auto
    then show ?thesis
      by (simp add: json_dumps_def newline_indent_def encode_string_def)
  qed
  show ?thesis
    using ind by (simp add: transform_template_written [OF assms])
qed

theorem output_is_json_indent_one_witness:
  "files (snd (transform_template (sample_env (Some 0)) (Path ''template.yaml'')
       (Path ''transformed-template.json'') (start sample_files)))
     = sample_files(Path ''transformed-template.json''
         \<mapsto> json_dumps 1 (JDict [(''Resources'', JDict [])]))"
proof -
  have a: "files (start sample_files) (Path ''template.yaml'') = Some ''Resources: {}''"
    by (simp add: sample_defs)
  have b: "yaml_parse (sample_env (Some 0)) ''Resources: {}'' = Inr (JDict [(''Resources'', JDict [])])"
    by (simp add: sample_env_def)
  have c: "transform (sample_env (Some 0)) (JDict [(''Resources'', JDict [])]) []
      = Inr (JDict [(''Resources'', JDict [])])"
    by (simp add: sample_env_def)
  have d: "writable (sample_env (Some 0)) (Path ''transformed-template.json'')"
    by (simp add: sample_env_def)
  from output_is_json_indent_one [OF a b c d] show ?thesis
    by (simp add: start_def)
qed


text \<open>What a pass of \<^const>\<open>consume\<close> leaves untouched.\<close>

lemma consume_template_file:
  "consume argv taken extras ns = Inr opts \<Longrightarrow> \<forall>v. Opt_template_file v \<notin> set argv
    \<Longrightarrow> template_file opts = template_file ns"
  by (induction argv taken extras ns rule: consume.induct) (auto split: if_splits)

lemma consume_output_template:
  "consume argv taken extras ns = Inr opts \<Longrightarrow> \<forall>v. Opt_output_template v \<notin> set argv
    \<Longrightarrow> output_template opts = output_template ns"
  by (induction argv taken extras ns rule: consume.induct) (auto split: if_splits)

lemma consume_verbose_absent:
  "consume argv taken extras ns = Inr opts \<Longrightarrow> Opt_verbose \<notin> set argv
    \<Longrightarrow> verbose opts = verbose ns"
  by (induction argv taken extras ns rule: consume.induct) (auto split: if_splits)

lemma consume_verbose_kept:
  "consume argv taken extras ns = Inr opts \<Longrightarrow> verbose ns \<Longrightarrow> verbose opts"
  by (induction argv taken extras ns rule: consume.induct) (auto split: if_splits)

lemma consume_verbose_present:
  "consume argv taken extras ns = Inr opts \<Longrightarrow> Opt_verbose \<in> set argv \<Longrightarrow> verbose opts"
proof (induction argv taken extras ns rule: consume.induct)
  case (8 rest taken extras ns)
  then show ?case
    using consume_verbose_kept [of rest taken extras "ns\<lparr>verbose := True\<rparr>" opts] by simp
qed (auto split: if_splits)

lemma consume_no_positional_gen:
  "extras = [] \<Longrightarrow> \<forall>s. Positional s \<notin> set argv \<Longrightarrow> Opt_help \<notin> set argv
    \<Longrightarrow> \<exists>opts. consume argv taken extras ns = Inr opts \<and> command opts = command ns"
  by (induction argv taken extras ns rule: consume.induct) auto

lemma consume_no_positional:
  "\<forall>s. Positional s \<notin> set argv \<Longrightarrow> Opt_help \<notin> set argv
    \<Longrightarrow> \<exists>opts. consume argv taken [] ns = Inr opts \<and> command opts = command ns"
  by (rule consume_no_positional_gen) simp_all

text \<open>
  C8: when no \<^verbatim>\<open>--template-file\<close> is given the parsed options hold the path
  \<^verbatim>\<open>template.yaml\<close>; when no \<^verbatim>\<open>--output-template\<close> is given they hold
  \<^verbatim>\<open>transformed-template.json\<close>; the positional \<^verbatim>\<open>command\<close> may be left out,
  and is then \<^verbatim>\<open>None\<close>; \<^verbatim>\<open>--verbose\<close> takes no value, and the option is true
  exactly when the flag is given.
\<close>

theorem parser_defaults:
  "(parse_args argv = Inr opts \<and> (\<forall>v. Opt_template_file v \<notin> set argv)
      \<longrightarrow> template_file opts = Path ''template.yaml'')
   \<and> (parse_args argv = Inr opts \<and> (\<forall>v. Opt_output_template v \<notin> set argv)
      \<longrightarrow> output_template opts = Path ''transformed-template.json'')
   \<and> ((\<forall>s. Positional s \<notin> set argv) \<and> Opt_help \<notin> set argv
      \<longrightarrow> (\<exists>ns. parse_args argv = Inr ns \<and> command ns = None))
   \<and> (parse_args argv = Inr opts \<longrightarrow> verbose opts = (Opt_verbose \<in> set argv))"
proof -
  have t: "template_file opts = Path ''template.yaml''"
    if "parse_args argv = Inr opts" and "\<forall>v. Opt_template_file v \<notin> set argv"
    using that consume_template_file [of argv False "[]" defaults opts]
    by (simp add: parse_args_def defaults_def)
  have o: "output_template opts = Path ''transformed-template.json''"
    if "parse_args argv = Inr opts" and "\<forall>v. Opt_output_template v \<notin> set argv"
    using that consume_output_template [of argv False "[]" defaults opts]
    by (simp add: parse_args_def defaults_def)
  have c: "\<exists>ns. parse_args argv = Inr ns \<and> command ns = None"
    if "\<forall>s. Positional s \<notin> set argv" and "Opt_help \<notin> set argv"
    using consume_no_positional [OF that, of False defaults]
    by (simp add: parse_args_def defaults_def)
  have v: "verbose opts = (Opt_verbose \<in> set argv)" if p: "parse_args argv = Inr opts"
  proof (cases "Opt_verbose \<in> set argv")
    case True
    then show ?thesis
      using p consume_verbose_present [of argv False "[]" defaults opts]
      by (simp add: parse_args_def)
  next
    case False
    then show ?thesis
      using p consume_verbose_absent [of argv False "[]" defaults opts]
      by (simp add: parse_args_def defaults_def)
  qed
  from t o c v show ?thesis
    by blast
qed

theorem parser_defaults_witness:
  "parse_args [Opt_s3_bucket ''my-bucket'']
     = Inr (defaults\<lparr>s3_bucket := Some ''my-bucket''\<rparr>)
   \<and> template_file (defaults\<lparr>s3_bucket := Some ''my-bucket''\<rparr>) = Path ''template.yaml''
   \<and> output_template (defaults\<lparr>s3_bucket := Some ''my-bucket''\<rparr>)
       = Path ''transformed-template.json''
   \<and> command (defaults\<lparr>s3_bucket := Some ''my-bucket''\<rparr>) = None
   \<and> \<not> verbose (defaults\<lparr>s3_bucket := Some ''my-bucket''\<rparr>)"
proof -
  have p: "parse_args [Opt_s3_bucket ''my-bucket''] = Inr (defaults\<lparr>s3_bucket := Some ''my-bucket''\<rparr>)"
    by (simp add: parse_args_def)
  have a: "\<forall>v. Opt_template_file v \<notin> set [Opt_s3_bucket ''my-bucket'']"
    by simp
  have b: "\<forall>v. Opt_output_template v \<notin> set [Opt_s3_bucket ''my-bucket'']"
    by simp
  have c: "(\<forall>s. Positional s \<notin> set [Opt_s3_bucket ''my-bucket''])
      \<and> Opt_help \<notin> set [Opt_s3_bucket ''my-bucket'']"
    by simp
  from parser_defaults [of "[Opt_s3_bucket ''my-bucket'']" "defaults\<lparr>s3_bucket := Some ''my-bucket''\<rparr>"]
    p a b c
  show ?thesis
    by simp
qed


text \<open>
  C2: when the child started for \<^verbatim>\<open>package\<close> ends with a return code \<open>n\<close> other
  than 0, under the sub-command \<^verbatim>\<open>package\<close> or \<^verbatim>\<open>deploy\<close>, the script
  raises \<^verbatim>\<open>SystemExit\<close> with \<open>n\<close>, and for an exit code \<open>n\<close> from 1 to 255 the
  process ends with the status \<open>n\<close>; packaging is the only stage that ran, the script
  wrote nothing, the files are as the child left them, and the output template is as
  it was before the run when the child left it alone.
\<close>

theorem package_failure_exits:
  assumes "command cli = Some ''package'' \<or> command cli = Some ''deploy''"
    and "s3_bucket cli = Some b"
    and "run_process ev
           [aws_cmd ev, ''cloudformation'', ''package'',
            ''--template-file'', str (template_file cli),
            ''--output-template-file'', str (template_file cli) @ ''._sam_packaged_.yaml'',
            ''--s3-bucket'', b] (files w) = Some (n, fs')"
    and "n \<noteq> 0"
  shows "fst (main ev cli w) = Inl (SystemExit n)
    \<and> (1 \<le> n \<and> n \<le> 255 \<longrightarrow> exit_code (fst (main ev cli w)) = n)
    \<and> stages (trace (snd (main ev cli w))) = stages (trace w) @ [Packaging]
    \<and> writes (trace (snd (main ev cli w))) = writes (trace w)
    \<and> files (snd (main ev cli w)) = fs'
    \<and> (fs' (output_template cli) = files w (output_template cli)
        \<longrightarrow> files (snd (main ev cli w)) (output_template cli) = files w (output_template cli))"
proof -
  have p: "fst (package ev cli (template_file cli) w) = Inl (SystemExit n)"
    using assms(2-4) by (simp add: package_def execute_command_def check_call_def Let_def)
  have f: "files (snd (package ev cli (template_file cli) w)) = fs'"
    using assms(2-4) by (simp add: package_def execute_command_def check_call_def Let_def)
  have m: "main ev cli w = (Inl (SystemExit n), snd (package ev cli (template_file cli) w))"
    using assms(1) p by (rule main_package_raises)
  show ?thesis
    by (simp add: m f package_stages package_writes)
qed

theorem package_failure_exits_witness:
  "exit_code (fst (main (sample_env (Some 2)) (sample_cli (Some ''package'') ''template.yaml'')
      (start sample_files))) = 2
   \<and> stages (trace (snd (main (sample_env (Some 2)) (sample_cli (Some ''package'') ''template.yaml'')
      (start sample_files)))) = [Packaging]
   \<and> files (snd (main (sample_env (Some 2)) (sample_cli (Some ''package'') ''template.yaml'')
      (start sample_files))) (Path ''transformed-template.json'') = Some ''old''"
proof -
  have a: "command (sample_cli (Some ''package'') ''template.yaml'') = Some ''package''
      \<or> command (sample_cli (Some ''package'') ''template.yaml'') = Some ''deploy''"
    by (simp add: sample_defs)
  have b: "s3_bucket (sample_cli (Some ''package'') ''template.yaml'') = Some ''my-bucket''"
    by (simp add: sample_defs)
  have c: "run_process (sample_env (Some 2))
           [aws_cmd (sample_env (Some 2)), ''cloudformation'', ''package'',
            ''--template-file'', str (template_file (sample_cli (Some ''package'') ''template.yaml'')),
            ''--output-template-file'',
            str (template_file (sample_cli (Some ''package'') ''template.yaml'')) @ ''._sam_packaged_.yaml'',
            ''--s3-bucket'', ''my-bucket''] (files (start sample_files))
        = Some (2, sample_files)"
    by (simp add: sample_env_def start_def)
  have d: "(2::int) \<noteq> 0"
    by simp
  have r: "(1::int) \<le> 2 \<and> (2::int) \<le> 255"
    by simp
  have o: "output_template (sample_cli (Some ''package'') ''template.yaml'')
      = Path ''transformed-template.json''"
    by (simp add: sample_defs)
  have k: "sample_files (output_template (sample_cli (Some ''package'') ''template.yaml''))
      = files (start sample_files) (output_template (sample_cli (Some ''package'') ''template.yaml''))"
    by (simp add: start_def)
  have f: "files (start sample_files) (Path ''transformed-template.json'') = Some ''old''"
    by (simp add: sample_files_def start_def)
  from package_failure_exits [OF a b c d] r k have
    "exit_code (fst (main (sample_env (Some 2)) (sample_cli (Some ''package'') ''template.yaml'')
        (start sample_files))) = 2"
    and "stages (trace (snd (main (sample_env (Some 2)) (sample_cli (Some ''package'') ''template.yaml'')
        (start sample_files)))) = stages (trace (start sample_files)) @ [Packaging]"
    and "files (snd (main (sample_env (Some 2)) (sample_cli (Some ''package'') ''template.yaml'')
        (start sample_files))) (output_template (sample_cli (Some ''package'') ''template.yaml''))
      = files (start sample_files) (output_template (sample_cli (Some ''package'') ''template.yaml''))"
    by blast+
  then show ?thesis
    by (simp add: o f) (simp add: start_def)
qed

text \<open>
  C3, amended: the stages that run are a prefix of the sequence that the sub-command
  lays out (transformation alone; packaging, transformation; packaging,
  transformation, deploying), in that order, and the whole sequence when the run ends
  without an exception. A stage that raises or exits ends the run with that exception:
  when packaging raises, packaging is the only stage and nothing is transformed or
  deployed; when, under \<^verbatim>\<open>deploy\<close>, the transformation raises, nothing is
  deployed. A stage that returns is followed by the next one. When the deploying stage
  runs, its call of the cloud CLI names the output path, the capabilities and the
  stack name of the options.
\<close>

theorem stages_follow_plan:
  "prefix (stages (trace (snd (main ev cli (start fs))))) (plan (command cli))
   \<and> (fst (main ev cli (start fs)) = Inr ()
        \<longrightarrow> stages (trace (snd (main ev cli (start fs)))) = plan (command cli))
   \<and> (Deploying \<in> set (stages (trace (snd (main ev cli (start fs)))))
        \<longrightarrow> last (check_calls (trace (snd (main ev cli (start fs)))))
            = [Str (aws_cmd ev), Str ''cloudformation'', Str ''deploy'',
               Str ''--template-file'', PathArg (output_template cli),
               Str ''--capabilities'', opt_arg (capabilities cli),
               Str ''--stack-name'', opt_arg (stack_name cli)])
   \<and> (command cli \<noteq> Some ''package'' \<and> command cli \<noteq> Some ''deploy''
        \<longrightarrow> stages (trace (snd (main ev cli (start fs)))) = [Transforming])
   \<and> ((command cli = Some ''package'' \<or> command cli = Some ''deploy'')
        \<and> fst (package ev cli (template_file cli) (start fs)) = Inl e1
        \<longrightarrow> fst (main ev cli (start fs)) = Inl e1
            \<and> stages (trace (snd (main ev cli (start fs)))) = [Packaging])
   \<and> (command cli = Some ''package''
        \<and> package ev cli (template_file cli) (start fs) = (Inr q, w1)
        \<longrightarrow> fst (main ev cli (start fs)) = fst (transform_template ev q (output_template cli) w1)
            \<and> stages (trace (snd (main ev cli (start fs)))) = [Packaging, Transforming])
   \<and> (command cli = Some ''deploy''
        \<and> package ev cli (template_file cli) (start fs) = (Inr q, w1)
        \<and> fst (transform_template ev q (output_template cli) w1) = Inl e2
        \<longrightarrow> fst (main ev cli (start fs)) = Inl e2
            \<and> stages (trace (snd (main ev cli (start fs)))) = [Packaging, Transforming])
   \<and> (command cli = Some ''deploy''
        \<and> package ev cli (template_file cli) (start fs) = (Inr q, w1)
        \<and> fst (transform_template ev q (output_template cli) w1) = Inr u
        \<longrightarrow> fst (main ev cli (start fs))
              = fst (deploy ev cli (output_template cli)
                       (snd (transform_template ev q (output_template cli) w1)))
            \<and> stages (trace (snd (main ev cli (start fs))))
              = [Packaging, Transforming, Deploying])"
proof -
  let ?w = "start fs"
  have e: "stages (trace ?w) = []"
    by (simp add: start_def)
  have a: "prefix (stages (trace (snd (main ev cli ?w)))) (plan (command cli))"
    by (simp add: main_stages_cases e plan_def split: sum.splits)
  have b: "stages (trace (snd (main ev cli ?w))) = plan (command cli)"
    if "fst (main ev cli ?w) = Inr ()"
    using that
    by (simp add: main_stages_cases main_fst_cases e plan_def split: sum.splits if_splits)
  have c: "last (check_calls (trace (snd (main ev cli ?w))))
            = [Str (aws_cmd ev), Str ''cloudformation'', Str ''deploy'',
               Str ''--template-file'', PathArg (output_template cli),
               Str ''--capabilities'', opt_arg (capabilities cli),
               Str ''--stack-name'', opt_arg (stack_name cli)]"
    if d: "Deploying \<in> set (stages (trace (snd (main ev cli ?w))))"
  proof -
    from d have c1: "command cli = Some ''deploy''"
      by (simp add: main_stages_cases e split: sum.splits if_splits)
    from d c1 obtain q where c2: "fst (package ev cli (template_file cli) ?w) = Inr q"
      by (cases "fst (package ev cli (template_file cli) ?w)")
         (simp_all add: main_stages_cases e)
    from d c1 c2 obtain u where c3: "fst (transform_template ev q (output_template cli)
           (snd (package ev cli (template_file cli) ?w))) = Inr u"
      by (cases "fst (transform_template ev q (output_template cli)
           (snd (package ev cli (template_file cli) ?w)))")
         (simp_all add: main_stages_cases e)
    show ?thesis
      by (simp add: main_deploy_reached [OF c1 c2 c3] deploy_check_calls)
  qed
  have d0: "stages (trace (snd (main ev cli ?w))) = [Transforming]"
    if "command cli \<noteq> Some ''package''" and "command cli \<noteq> Some ''deploy''"
    using that by (simp add: main_stages_cases e)
  have d1: "fst (main ev cli ?w) = Inl e1 \<and> stages (trace (snd (main ev cli ?w))) = [Packaging]"
    if "command cli = Some ''package'' \<or> command cli = Some ''deploy''"
      and "fst (package ev cli (template_file cli) ?w) = Inl e1"
    using that by (auto simp add: main_stages_cases main_fst_cases e)
  have d2: "fst (main ev cli ?w) = fst (transform_template ev q (output_template cli) w1)
      \<and> stages (trace (snd (main ev cli ?w))) = [Packaging, Transforming]"
    if "command cli = Some ''package''"
      and "package ev cli (template_file cli) ?w = (Inr q, w1)"
    using that by (simp add: main_stages_cases main_fst_cases e)
  have d3: "fst (main ev cli ?w) = Inl e2
      \<and> stages (trace (snd (main ev cli ?w))) = [Packaging, Transforming]"
    if "command cli = Some ''deploy''"
      and "package ev cli (template_file cli) ?w = (Inr q, w1)"
      and "fst (transform_template ev q (output_template cli) w1) = Inl e2"
    using that by (simp add: main_stages_cases main_fst_cases e)
  have d4: "fst (main ev cli ?w)
        = fst (deploy ev cli (output_template cli)
                 (snd (transform_template ev q (output_template cli) w1)))
      \<and> stages (trace (snd (main ev cli ?w))) = [Packaging, Transforming, Deploying]"
    if "command cli = Some ''deploy''"
      and "package ev cli (template_file cli) ?w = (Inr q, w1)"
      and "fst (transform_template ev q (output_template cli) w1) = Inr u"
    using that by (simp add: main_stages_cases main_fst_cases e)
  from a b c d0 d1 d2 d3 d4 show ?thesis
    by blast
qed


theorem stages_follow_plan_witness:
  "stages (trace (snd (main (sample_env (Some 0)) (sample_cli (Some ''deploy'') ''template.yaml'')
      (start sample_files)))) = [Packaging, Transforming, Deploying]
   \<and> last (check_calls (trace (snd (main (sample_env (Some 0))
      (sample_cli (Some ''deploy'') ''template.yaml'') (start sample_files)))))
       = [Str ''aws'', Str ''cloudformation'', Str ''deploy'',
          Str ''--template-file'', PathArg (Path ''transformed-template.json''),
          Str ''--capabilities'', Str ''CAPABILITY_IAM'',
          Str ''--stack-name'', Str ''my-stack'']
   \<and> stages (trace (snd (main (sample_env (Some 0)) (sample_cli None ''template.yaml'')
      (start sample_files)))) = [Transforming]
   \<and> stages (trace (snd (main (sample_env (Some 3)) (sample_cli (Some ''deploy'') ''template.yaml'')
      (start sample_files)))) = [Packaging]
   \<and> stages (trace (snd (main (sample_env (Some 0)) (sample_cli (Some ''package'') ''template.yaml'')
      (start sample_files)))) = [Packaging, Transforming]
   \<and> fst (main (sample_env (Some 0)) (sample_cli (Some ''deploy'') ''broken.yaml'')
      (start sample_files)) = Inl (YAMLError ''{'')
   \<and> stages (trace (snd (main (sample_env (Some 0)) (sample_cli (Some ''deploy'') ''broken.yaml'')
      (start sample_files)))) = [Packaging, Transforming]"
proof -
  let ?ok = "sample_env (Some 0)"
  let ?dep = "sample_cli (Some ''deploy'') ''template.yaml''"
  let ?pkg = "sample_cli (Some ''package'') ''template.yaml''"
  let ?brk = "sample_cli (Some ''deploy'') ''broken.yaml''"
  let ?w = "start sample_files"
  have r: "fst (main ?ok ?dep ?w) = Inr ()"
    by (simp add: sample_defs run_defs)
  have p: "plan (command ?dep) = [Packaging, Transforming, Deploying]"
    by (simp add: sample_defs plan_def)
  have a: "aws_cmd ?ok = ''aws''"
    by (simp add: sample_env_def aws_cmd_def lower_def lower_char_def)
  have o: "output_template ?dep = Path ''transformed-template.json''
      \<and> capabilities ?dep = Some ''CAPABILITY_IAM''
      \<and> stack_name ?dep = Some ''my-stack''"
    by (simp add: sample_defs)
  from stages_follow_plan [where ev = ?ok and cli = ?dep and fs = sample_files] r p a o
  have i1: "stages (trace (snd (main ?ok ?dep ?w))) = [Packaging, Transforming, Deploying]
      \<and> last (check_calls (trace (snd (main ?ok ?dep ?w))))
       = [Str ''aws'', Str ''cloudformation'', Str ''deploy'',
          Str ''--template-file'', PathArg (Path ''transformed-template.json''),
          Str ''--capabilities'', Str ''CAPABILITY_IAM'',
          Str ''--stack-name'', Str ''my-stack'']"
    by simp
  have n: "command (sample_cli None ''template.yaml'') \<noteq> Some ''package''
      \<and> command (sample_cli None ''template.yaml'') \<noteq> Some ''deploy''"
    by (simp add: sample_defs)
  from stages_follow_plan [where ev = ?ok and cli = "sample_cli None ''template.yaml''"
      and fs = sample_files] n
  have i2: "stages (trace (snd (main ?ok (sample_cli None ''template.yaml'') ?w))) = [Transforming]"
    by blast
  have c3: "command ?dep = Some ''package'' \<or> command ?dep = Some ''deploy''"
    by (simp add: sample_defs)
  have f3: "fst (package (sample_env (Some 3)) ?dep (template_file ?dep) ?w) = Inl (SystemExit 3)"
    by (simp add: sample_defs run_defs)
  from stages_follow_plan [where ev = "sample_env (Some 3)" and cli = ?dep and fs = sample_files
      and ?e1.0 = "SystemExit 3"] c3 f3
  have i3: "stages (trace (snd (main (sample_env (Some 3)) ?dep ?w))) = [Packaging]"
    by blast
  have c4: "command ?pkg = Some ''package''"
    by (simp add: sample_defs)
  have f4: "fst (package ?ok ?pkg (template_file ?pkg) ?w)
      = Inr (Path ''template.yaml._sam_packaged_.yaml'')"
    by (simp add: sample_defs run_defs)
  have e4: "package ?ok ?pkg (template_file ?pkg) ?w
      = (Inr (Path ''template.yaml._sam_packaged_.yaml''),
         snd (package ?ok ?pkg (template_file ?pkg) ?w))"
    using f4 by (simp add: prod_eq_iff)
  from stages_follow_plan [where ev = ?ok and cli = ?pkg and fs = sample_files
      and q = "Path ''template.yaml._sam_packaged_.yaml''"
      and ?w1.0 = "snd (package ?ok ?pkg (template_file ?pkg) ?w)"] c4 e4
  have i4: "stages (trace (snd (main ?ok ?pkg ?w))) = [Packaging, Transforming]"
    by blast
  have c5: "command ?brk = Some ''deploy''"
    by (simp add: sample_defs)
  have f5: "fst (package ?ok ?brk (template_file ?brk) ?w)
      = Inr (Path ''broken.yaml._sam_packaged_.yaml'')"
    by (simp add: sample_defs run_defs)
  have e5: "package ?ok ?brk (template_file ?brk) ?w
      = (Inr (Path ''broken.yaml._sam_packaged_.yaml''),
         snd (package ?ok ?brk (template_file ?brk) ?w))"
    using f5 by (simp add: prod_eq_iff)
  have t5: "fst (transform_template ?ok (Path ''broken.yaml._sam_packaged_.yaml'')
        (output_template ?brk) (snd (package ?ok ?brk (template_file ?brk) ?w)))
      = Inl (YAMLError ''{'')"
    by (simp add: sample_defs run_defs)
  from stages_follow_plan [where ev = ?ok and cli = ?brk and fs = sample_files
      and q = "Path ''broken.yaml._sam_packaged_.yaml''"
      and ?w1.0 = "snd (package ?ok ?brk (template_file ?brk) ?w)"
      and ?e2.0 = "YAMLError ''{''"] c5 e5 t5
  have i5: "fst (main ?ok ?brk ?w) = Inl (YAMLError ''{'')
      \<and> stages (trace (snd (main ?ok ?brk ?w))) = [Packaging, Transforming]"
    by blast
  from i1 i2 i3 i4 i5 show ?thesis
    by blast
qed


text \<open>The \<^verbatim>\<open>reduce\<close> of line 115, written out.\<close>

lemma reduce_messages:
  "foldl (\<lambda>message error. message @ '' '' @ error) m cs = m @ concat (map (\<lambda>c. '' '' @ c) cs)"
  by (induction cs arbitrary: m) simp_all

lemma deploy_writes:
  "writes (trace (snd (deploy ev cli p w))) = writes (trace w)"
  by (simp add: deploy_def Let_def execute_command_writes)

text \<open>
  C1: when the transformation raises a validation error, \<^verbatim>\<open>transform_template\<close>
  logs the top-level message followed by every cause message, each after a space,
  writes nothing (the files, the output path among them, are as they were) and returns
  normally, so that the run goes on. Under no sub-command and under \<^verbatim>\<open>package\<close>
  (once packaging has returned) the script then ends with status 0; under
  \<^verbatim>\<open>deploy\<close> the deploying stage still runs, and the script ends with status 0
  when that stage returns.
\<close>

theorem validation_error_is_swallowed:
  assumes "files w inp = Some text" and "yaml_parse ev text = Inr doc"
    and "transform ev doc [] = Inl (InvalidDocumentException e)"
  shows "fst (transform_template ev inp out w) = Inr ()
    \<and> logged_errors (trace (snd (transform_template ev inp out w)))
        = logged_errors (trace w) @ [message e @ concat (map (\<lambda>c. '' '' @ c) (causes e))]
    \<and> writes (trace (snd (transform_template ev inp out w))) = writes (trace w)
    \<and> files (snd (transform_template ev inp out w)) = files w
    \<and> (command cli \<noteq> Some ''package'' \<and> command cli \<noteq> Some ''deploy''
         \<and> template_file cli = inp \<and> output_template cli = out
        \<longrightarrow> exit_code (fst (main ev cli w)) = 0 \<and> files (snd (main ev cli w)) = files w)
    \<and> (command cli = Some ''package'' \<and> output_template cli = out
         \<and> package ev cli (template_file cli) w0 = (Inr inp, w)
        \<longrightarrow> exit_code (fst (main ev cli w0)) = 0
            \<and> files (snd (main ev cli w0)) = files w
            \<and> writes (trace (snd (main ev cli w0))) = writes (trace w0))
    \<and> (command cli = Some ''deploy'' \<and> output_template cli = out
         \<and> package ev cli (template_file cli) w0 = (Inr inp, w)
        \<longrightarrow> main ev cli w0 = deploy ev cli out (snd (transform_template ev inp out w))
            \<and> stages (trace (snd (main ev cli w0)))
                = stages (trace w0) @ [Packaging, Transforming, Deploying]
            \<and> writes (trace (snd (main ev cli w0))) = writes (trace w0)
            \<and> (fst (deploy ev cli out (snd (transform_template ev inp out w))) = Inr ()
                \<longrightarrow> exit_code (fst (main ev cli w0)) = 0))"
proof -
  let ?w' = "emit (LogErrorGenerator (causes e)) (emit (LogError (error_message e))
       (emit (Open_file inp) w))"
  have t: "transform_template ev inp out w = (Inr (), ?w')"
    using assms by (rule transform_template_invalid)
  have m: "error_message e = message e @ concat (map (\<lambda>c. '' '' @ c) (causes e))"
    unfolding error_message_def by (rule reduce_messages)
  have p1: "fst (transform_template ev inp out w) = Inr ()"
    by (simp add: t)
  have p2: "logged_errors (trace (snd (transform_template ev inp out w)))
        = logged_errors (trace w) @ [message e @ concat (map (\<lambda>c. '' '' @ c) (causes e))]"
    by (simp add: t m)
  have p3: "writes (trace (snd (transform_template ev inp out w))) = writes (trace w)"
    by (simp add: t)
  have p4: "files (snd (transform_template ev inp out w)) = files w"
    by (simp add: t)
  have p5: "exit_code (fst (main ev cli w)) = 0 \<and> files (snd (main ev cli w)) = files w"
    if "command cli \<noteq> Some ''package''" and "command cli \<noteq> Some ''deploy''"
      and "template_file cli = inp" and "output_template cli = out"
    using that by (simp add: main_default t)
  have p6: "exit_code (fst (main ev cli w0)) = 0
            \<and> files (snd (main ev cli w0)) = files w
            \<and> writes (trace (snd (main ev cli w0))) = writes (trace w0)"
    if c: "command cli = Some ''package''" and o: "output_template cli = out"
      and p: "package ev cli (template_file cli) w0 = (Inr inp, w)"
  proof -
    have "writes (trace w) = writes (trace w0)"
      using package_writes [of ev cli "template_file cli" w0] p by simp
    then show ?thesis
      by (simp add: main_package_returns [OF c p] o t)
  qed
  have p7: "main ev cli w0 = deploy ev cli out (snd (transform_template ev inp out w))
            \<and> stages (trace (snd (main ev cli w0)))
                = stages (trace w0) @ [Packaging, Transforming, Deploying]
            \<and> writes (trace (snd (main ev cli w0))) = writes (trace w0)
            \<and> (fst (deploy ev cli out (snd (transform_template ev inp out w))) = Inr ()
                \<longrightarrow> exit_code (fst (main ev cli w0)) = 0)"
    if c: "command cli = Some ''deploy''" and o: "output_template cli = out"
      and p: "package ev cli (template_file cli) w0 = (Inr inp, w)"
  proof -
    have wr: "writes (trace w) = writes (trace w0)"
      using package_writes [of ev cli "template_file cli" w0] p by simp
    have st: "stages (trace w) = stages (trace w0) @ [Packaging]"
      using package_stages [of ev cli "template_file cli" w0] p by simp
    have mm: "main ev cli w0 = deploy ev cli out ?w'"
      by (simp add: main_deploy_returns [OF c p] o t)
    show ?thesis
      by (simp add: mm t deploy_stages deploy_writes wr st)
  qed
  from p1 p2 p3 p4 p5 p6 p7 show ?thesis
    by blast
qed

theorem validation_error_is_swallowed_witness:
  "exit_code (fst (main (sample_env (Some 0)) (sample_cli None ''bad.yaml'') (start sample_files))) = 0
   \<and> files (snd (main (sample_env (Some 0)) (sample_cli None ''bad.yaml'') (start sample_files)))
       (Path ''transformed-template.json'') = Some ''old''
   \<and> logged_errors (trace (snd (transform_template (sample_env (Some 0)) (Path ''bad.yaml'')
        (Path ''transformed-template.json'') (start sample_files))))
       = [''Invalid document. first second'']
   \<and> exit_code (fst (main (sample_env (Some 0)) (sample_cli (Some ''package'') ''bad.yaml'')
        (start sample_files))) = 0
   \<and> stages (trace (snd (main (sample_env (Some 0)) (sample_cli (Some ''deploy'') ''bad.yaml'')
        (start sample_files)))) = [Packaging, Transforming, Deploying]
   \<and> exit_code (fst (main (sample_env (Some 0)) (sample_cli (Some ''deploy'') ''bad.yaml'')
        (start sample_files))) = 0"
proof -
  let ?ok = "sample_env (Some 0)"
  let ?w = "start sample_files"
  let ?out = "Path ''transformed-template.json''"
  let ?pkg = "sample_cli (Some ''package'') ''bad.yaml''"
  let ?dep = "sample_cli (Some ''deploy'') ''bad.yaml''"
  let ?q = "Path ''bad.yaml._sam_packaged_.yaml''"
  have a: "files ?w (Path ''bad.yaml'') = Some ''Bad: 1''"
    by (simp add: sample_defs)
  have b: "yaml_parse ?ok ''Bad: 1'' = Inr (JDict [(''Bad'', JInt 1)])"
    by (simp add: sample_env_def)
  have c: "transform ?ok (JDict [(''Bad'', JInt 1)]) []
      = Inl (InvalidDocumentException sample_invalid)"
    by (simp add: sample_env_def)
  have d: "command (sample_cli None ''bad.yaml'') \<noteq> Some ''package''
      \<and> command (sample_cli None ''bad.yaml'') \<noteq> Some ''deploy''
      \<and> template_file (sample_cli None ''bad.yaml'') = Path ''bad.yaml''
      \<and> output_template (sample_cli None ''bad.yaml'') = ?out"
    by (simp add: sample_defs)
  have f: "files ?w ?out = Some ''old''"
    by (simp add: sample_defs)
  have l: "logged_errors (trace ?w) = []"
    by (simp add: start_def)
  have s: "message sample_invalid @ concat (map (\<lambda>c. '' '' @ c) (causes sample_invalid))
      = ''Invalid document. first second''"
    by (simp add: sample_invalid_def)
  from validation_error_is_swallowed [OF a b c,
      where cli = "sample_cli None ''bad.yaml''" and out = ?out] d f l s
  have i1: "exit_code (fst (main ?ok (sample_cli None ''bad.yaml'') ?w)) = 0
      \<and> files (snd (main ?ok (sample_cli None ''bad.yaml'') ?w)) ?out = Some ''old''
      \<and> logged_errors (trace (snd (transform_template ?ok (Path ''bad.yaml'') ?out ?w)))
          = [''Invalid document. first second'']"
    by simp
  have pf: "fst (package ?ok ?pkg (template_file ?pkg) ?w) = Inr ?q"
    by (simp add: sample_defs run_defs)
  have pe: "package ?ok ?pkg (template_file ?pkg) ?w
      = (Inr ?q, snd (package ?ok ?pkg (template_file ?pkg) ?w))"
    using pf by (simp add: prod_eq_iff)
  have pa: "files (snd (package ?ok ?pkg (template_file ?pkg) ?w)) ?q = Some ''Bad: 1''"
    by (simp add: sample_defs run_defs)
  have pc: "command ?pkg = Some ''package'' \<and> output_template ?pkg = ?out"
    by (simp add: sample_defs)
  from validation_error_is_swallowed [OF pa b c,
      where cli = ?pkg and out = ?out and ?w0.0 = ?w] pc pe
  have i2: "exit_code (fst (main ?ok ?pkg ?w)) = 0"
    by blast
  have df: "fst (package ?ok ?dep (template_file ?dep) ?w) = Inr ?q"
    by (simp add: sample_defs run_defs)
  have de: "package ?ok ?dep (template_file ?dep) ?w
      = (Inr ?q, snd (package ?ok ?dep (template_file ?dep) ?w))"
    using df by (simp add: prod_eq_iff)
  have da: "files (snd (package ?ok ?dep (template_file ?dep) ?w)) ?q = Some ''Bad: 1''"
    by (simp add: sample_defs run_defs)
  have dc: "command ?dep = Some ''deploy'' \<and> output_template ?dep = ?out"
    by (simp add: sample_defs)
  have dd: "fst (deploy ?ok ?dep ?out
      (snd (transform_template ?ok ?q ?out (snd (package ?ok ?dep (template_file ?dep) ?w)))))
      = Inr ()"
    by (simp add: sample_defs run_defs)
  have st: "stages (trace ?w) = []"
    by (simp add: start_def)
  from validation_error_is_swallowed [OF da b c,
      where cli = ?dep and out = ?out and ?w0.0 = ?w] dc de
  have x1: "stages (trace (snd (main ?ok ?dep ?w)))
      = stages (trace ?w) @ [Packaging, Transforming, Deploying]"
    and x2: "fst (deploy ?ok ?dep ?out
        (snd (transform_template ?ok ?q ?out (snd (package ?ok ?dep (template_file ?dep) ?w)))))
        = Inr ()
      \<longrightarrow> exit_code (fst (main ?ok ?dep ?w)) = 0"
    by blast+
  from x1 x2 dd st
  have i3: "stages (trace (snd (main ?ok ?dep ?w))) = [Packaging, Transforming, Deploying]
      \<and> exit_code (fst (main ?ok ?dep ?w)) = 0"
    by simp
  from i1 i2 i3 show ?thesis
    by blast
qed

end
